theory Spec2Isabelle
  imports Main
begin

section \<open>Values of the front end\<close>

text \<open>
  The component of \<^verbatim>\<open>src/frontend/src/App.js\<close> keeps eight \<^verbatim>\<open>useState\<close> cells and talks
  to a wallet provider and to \<^verbatim>\<open>ethers.Contract\<close> objects. A wallet address is a string; a
  contract object is identified by a number, fresh for every \<^verbatim>\<open>new ethers.Contract\<close>.
  Of a thrown or rejected error the code reads only \<^verbatim>\<open>err.message\<close>. A settled promise
  is a sum: \<open>Inl\<close> the rejection, \<open>Inr\<close> the value it was fulfilled with.
\<close>

type_synonym address = string
type_synonym handle = nat

datatype error = Error (err_message: string)

type_synonym 'a settled = "error + 'a"

text \<open>
  The strings \<^verbatim>\<open>'X'\<close> and \<^verbatim>\<open>'O'\<close>; a board cell, which is the number \<^verbatim>\<open>0\<close> or one of these
  strings; and the strings \<^verbatim>\<open>'waiting'\<close>, \<^verbatim>\<open>'playing'\<close>, \<^verbatim>\<open>'completed'\<close> of \<^verbatim>\<open>gameState\<close>.
\<close>

datatype mark = MarkX | MarkO

datatype cell = Empty | Mark mark

datatype phase = Waiting | Playing | Completed

datatype event_name = GameStarted | MoveMade | GameEnded

text \<open>
  A listener registered with \<^verbatim>\<open>gameContract.on(name, handler)\<close>: the contract object it
  is registered on, the event, and the two state cells its handler closes over
  (\<^verbatim>\<open>contract\<close>, through \<^verbatim>\<open>updateGameState\<close>, and \<^verbatim>\<open>account\<close>), with the values they had
  in the render whose effect registered it.
\<close>

datatype listener =
  Listener (target: handle) (event: event_name)
    (captured_contract: "handle option") (captured_account: "address option")

text \<open>
  The transaction a call of \<^verbatim>\<open>contract.makeMove(row, col)\<close> asks the wallet to send: the
  contract object the call is made on, and the two arguments.
\<close>

datatype tx_request = MakeMoveTx handle int int

text \<open>
  The state: the eight \<^verbatim>\<open>useState\<close> cells (lines 7 to 14), then what the component
  changes outside React: the listeners on the contract objects it created, the number
  of the next contract object, and the move transactions it has requested so far.

  A value of this record is used in two roles. The live state \<open>s\<close> is what the setters
  write. A render \<open>r\<close> is the state a closure was created in: the functions of the
  component read \<^verbatim>\<open>contract\<close>, \<^verbatim>\<open>account\<close>, \<^verbatim>\<open>loading\<close> and \<^verbatim>\<open>board\<close> as constants of
  their render, not from the live state.
\<close>

record app =
  contract :: "handle option"
  account :: "address option"
  board :: "cell list list"
  gameState :: phase
  currentTurn :: mark
  loading :: bool
  message :: string
  stakeAmount :: string
  listeners :: "listener list"
  next_handle :: handle
  requested :: "tx_request list"

definition initial :: app where
  "initial =
     \<lparr>contract = None, account = None,
      board = replicate 3 (replicate 3 Empty),
      gameState = Waiting, currentTurn = MarkX, loading = False,
      message = ''Connect your wallet to play'', stakeAmount = ''0'',
      listeners = [], next_handle = 0, requested = []\<rparr>"

subsection \<open>Strings and errors of the runtime\<close>

text \<open>\<^verbatim>\<open>String.prototype.includes\<close>: the pattern occurs somewhere in the string.\<close>

fun startsWith :: "string \<Rightarrow> string \<Rightarrow> bool" where
  "startsWith s [] = True"
| "startsWith [] (p # ps) = False"
| "startsWith (c # s) (p # ps) = (c = p \<and> startsWith s ps)"

fun includes_str :: "string \<Rightarrow> string \<Rightarrow> bool" where
  "includes_str [] p = (p = [])"
| "includes_str (c # s) p = (startsWith (c # s) p \<or> includes_str s p)"

text \<open>
  Calling a method on \<^verbatim>\<open>contract\<close> while it is still \<^verbatim>\<open>null\<close> throws a TypeError. Its
  message is the engine's; the wording here is V8's. Nothing below depends on the
  wording, only on the fact that it is the message of the error thrown.
\<close>

definition nullTypeError :: "string \<Rightarrow> error" where
  "nullTypeError prop =
     Error (''Cannot read properties of null (reading '' @ [CHR 0x27] @ prop @ [CHR 0x27] @ '')'')"

section \<open>updateGameState (lines 71 to 85)\<close>

text \<open>
  \<^verbatim>\<open>Promise.all\<close> of the three reads is fulfilled with the three values when all three are
  fulfilled, and rejected with the reason of a rejected read otherwise (the one that
  rejects first in time, which the code does not control). \<open>promise_all\<close> says that
  \<open>res\<close> is a result \<^verbatim>\<open>Promise.all\<close> can settle with for the three settled reads.
\<close>

definition promise_all ::
  "'a settled \<Rightarrow> 'b settled \<Rightarrow> 'c settled \<Rightarrow> ('a \<times> 'b \<times> 'c) settled \<Rightarrow> bool" where
  "promise_all pa pb pc res =
     (case res of
        Inr (a, b, c) \<Rightarrow> pa = Inr a \<and> pb = Inr b \<and> pc = Inr c
      | Inl e \<Rightarrow> pa = Inl e \<or> pb = Inl e \<or> pc = Inl e)"

text \<open>Line 83, the \<^verbatim>\<open>catch\<close> block.\<close>

definition updateGameState_catch :: "error \<Rightarrow> app \<Rightarrow> app" where
  "updateGameState_catch err s = s\<lparr>message := err_message err\<rparr>"

text \<open>
  Lines 72 to 77 in render \<open>r\<close>, up to the \<^verbatim>\<open>await\<close>: with \<^verbatim>\<open>contract\<close> still \<^verbatim>\<open>null\<close> the
  first element of the array literal, \<^verbatim>\<open>contract.getBoard()\<close>, throws, and the \<^verbatim>\<open>catch\<close>
  block runs at once; otherwise the three reads are issued and the function is
  suspended with the state as it was.
\<close>

definition updateGameState_call :: "app \<Rightarrow> app \<Rightarrow> app" where
  "updateGameState_call r s =
     (case contract r of
        None \<Rightarrow> updateGameState_catch (nullTypeError ''getBoard'') s
      | Some c \<Rightarrow> s)"

text \<open>
  Lines 79 to 84, when \<^verbatim>\<open>Promise.all\<close> has settled with \<open>res\<close>: the three setters, or the
  \<^verbatim>\<open>catch\<close> block. It runs on the state as it is by then.
\<close>

definition updateGameState_settle :: "(int list list \<times> int \<times> int) settled \<Rightarrow> app \<Rightarrow> app" where
  "updateGameState_settle res s =
     (case res of
        Inr (boardState, turn, state) \<Rightarrow>
          s\<lparr>board := map (\<lambda>row. map (\<lambda>cell. if cell = 0 then Empty
                                              else if cell = 1 then Mark MarkX
                                              else Mark MarkO) row) boardState,
            currentTurn := (if turn = 0 then MarkX else MarkO),
            gameState := (if state = 0 then Waiting
                          else if state = 1 then Playing
                          else Completed)\<rparr>
      | Inl err \<Rightarrow> updateGameState_catch err s)"

text \<open>
  The rest of a refresh that was called in render \<open>r\<close>: nothing is left to run when the
  call has thrown, the settlement otherwise.
\<close>

definition await_refresh :: "app \<Rightarrow> (int list list \<times> int \<times> int) settled \<Rightarrow> app \<Rightarrow> app" where
  "await_refresh r res s =
     (case contract r of None \<Rightarrow> s | Some c \<Rightarrow> updateGameState_settle res s)"

text \<open>The whole function, run with nothing else in between.\<close>

definition updateGameState :: "app \<Rightarrow> (int list list \<times> int \<times> int) settled \<Rightarrow> app \<Rightarrow> app" where
  "updateGameState r res s = await_refresh r res (updateGameState_call r s)"

section \<open>The event handlers (lines 37 to 50)\<close>

text \<open>
  Each handler sets the message, calls \<^verbatim>\<open>updateGameState()\<close> without awaiting it, and
  returns. The \<^verbatim>\<open>updateGameState\<close> and the \<^verbatim>\<open>account\<close> it uses are those of the render \<open>r\<close>
  whose effect registered the listener. The refresh it has called settles later
  (\<open>await_refresh\<close>).
\<close>

definition onGameStarted :: "app \<Rightarrow> address \<Rightarrow> address \<Rightarrow> app \<Rightarrow> app" where
  "onGameStarted r playerX playerO s =
     updateGameState_call r
       (s\<lparr>message := (if Some playerO = account r then ''Game started! You are O''
                       else ''Game started! You are X'')\<rparr>)"

definition onMoveMade :: "app \<Rightarrow> app \<Rightarrow> app" where
  "onMoveMade r s = updateGameState_call r s"

definition onGameEnded :: "app \<Rightarrow> address \<Rightarrow> bool \<Rightarrow> app \<Rightarrow> app" where
  "onGameEnded r winner isDraw s =
     updateGameState_call r
       (s\<lparr>message := (if isDraw then ''Game ended in a draw!''
                       else if Some winner = account r then ''You won!''
                       else ''You lost!'')\<rparr>)"

section \<open>The effect: init and its cleanup (lines 17 to 69)\<close>

text \<open>
  What the outside world answers during one run of \<^verbatim>\<open>init\<close>: whether \<^verbatim>\<open>getProvider()\<close>
  returns, the chain id of \<^verbatim>\<open>provider.getNetwork()\<close>, the stake, the accounts of
  \<^verbatim>\<open>provider.listAccounts()\<close>, and the result of the refresh of line 57. The module
  \<^verbatim>\<open>./contract\<close> and the library function \<^verbatim>\<open>ethers.utils.formatEther\<close> are not part of the
  source file; \<open>formatEther\<close> is taken as it comes.
\<close>

record init_env =
  provider_r :: "unit settled"
  network_r :: "int settled"
  stake_r :: "int settled"
  formatEther :: "int \<Rightarrow> string"
  accounts_r :: "address list settled"
  refresh_r :: "(int list list \<times> int \<times> int) settled"

text \<open>Lines 60 to 64, the \<^verbatim>\<open>catch\<close> block of \<^verbatim>\<open>init\<close>.\<close>

definition init_catch :: "error \<Rightarrow> app \<Rightarrow> app" where
  "init_catch err s =
     s\<lparr>message := (if includes_str (err_message err) ''chain not supported''
                     then ''Please connect to Monad Testnet''
                     else err_message err)\<rparr>"

text \<open>
  Lines 24 to 30, after the network is known: the warning, then the new contract
  object, which \<^verbatim>\<open>setContract\<close> stores. The new object is number \<open>next_handle s\<close>.
\<close>

definition init_network :: "int \<Rightarrow> app \<Rightarrow> app" where
  "init_network chainId s =
     (let s1 = (if chainId \<noteq> 1234
                then s\<lparr>message := ''Please switch to Monad Testnet in MetaMask''\<rparr>
                else s);
          gameContract = next_handle s1
      in s1\<lparr>next_handle := Suc gameContract, contract := Some gameContract\<rparr>)"

text \<open>
  Lines 34 to 50, after the stake is known: the three listeners are registered on the
  new object \<open>gameContract\<close>, their handlers closing over render \<open>r\<close>.
\<close>

definition init_stake :: "app \<Rightarrow> handle \<Rightarrow> string \<Rightarrow> app \<Rightarrow> app" where
  "init_stake r gameContract stake s =
     s\<lparr>stakeAmount := stake,
       listeners := listeners s @
         [Listener gameContract GameStarted (contract r) (account r),
          Listener gameContract MoveMade (contract r) (account r),
          Listener gameContract GameEnded (contract r) (account r)]\<rparr>"

text \<open>
  Lines 54 to 58, after the accounts are known, up to the return of \<^verbatim>\<open>init\<close>; the
  refresh of line 57 is called and not awaited.
\<close>

definition init_accounts :: "app \<Rightarrow> address list \<Rightarrow> app \<Rightarrow> app" where
  "init_accounts r accounts s =
     (case accounts of
        [] \<Rightarrow> s
      | a # _ \<Rightarrow> updateGameState_call r (s\<lparr>account := Some a, message := ''Connected to wallet''\<rparr>))"

text \<open>
  One whole run of \<^verbatim>\<open>init\<close> in render \<open>r\<close>, with nothing else in between, the refresh of
  line 57 included when it was called. An \<^verbatim>\<open>await\<close> that rejects leaves what the earlier
  lines have set and goes to the \<^verbatim>\<open>catch\<close> block.
\<close>

definition init :: "app \<Rightarrow> init_env \<Rightarrow> app \<Rightarrow> app" where
  "init r env s =
     (case provider_r env of
        Inl err \<Rightarrow> init_catch err s
      | Inr provider \<Rightarrow>
     (case network_r env of
        Inl err \<Rightarrow> init_catch err s
      | Inr chainId \<Rightarrow>
         let gameContract = next_handle s;
             s1 = init_network chainId s
         in
     (case stake_r env of
        Inl err \<Rightarrow> init_catch err s1
      | Inr stake \<Rightarrow>
         let s2 = init_stake r gameContract (formatEther env stake) s1 in
     (case accounts_r env of
        Inl err \<Rightarrow> init_catch err s2
      | Inr accounts \<Rightarrow>
         let s3 = init_accounts r accounts s2
         in if accounts = [] then s3 else await_refresh r (refresh_r env) s3))))"

text \<open>The error the \<^verbatim>\<open>try\<close> block of \<^verbatim>\<open>init\<close> throws, if any: that of the first \<^verbatim>\<open>await\<close> that rejects.\<close>

definition init_thrown :: "init_env \<Rightarrow> error option" where
  "init_thrown env =
     (case provider_r env of
        Inl err \<Rightarrow> Some err
      | Inr provider \<Rightarrow>
     (case network_r env of
        Inl err \<Rightarrow> Some err
      | Inr chainId \<Rightarrow>
     (case stake_r env of
        Inl err \<Rightarrow> Some err
      | Inr stake \<Rightarrow>
     (case accounts_r env of
        Inl err \<Rightarrow> Some err
      | Inr accounts \<Rightarrow> None))))"

text \<open>
  Line 68, the cleanup the effect returns: \<^verbatim>\<open>contract?.removeAllListeners()\<close>, where
  \<^verbatim>\<open>contract\<close> is the constant of the render \<open>r\<close> in which the effect ran.
\<close>

definition removeAllListeners :: "handle \<Rightarrow> app \<Rightarrow> app" where
  "removeAllListeners c s = s\<lparr>listeners := filter (\<lambda>l. target l \<noteq> c) (listeners s)\<rparr>"

definition cleanup :: "app \<Rightarrow> app \<Rightarrow> app" where
  "cleanup r s = (case contract r of None \<Rightarrow> s | Some c \<Rightarrow> removeAllListeners c s)"

definition listeners_on :: "handle \<Rightarrow> app \<Rightarrow> event_name list" where
  "listeners_on c s = map event (filter (\<lambda>l. target l = c) (listeners s))"

section \<open>connectWallet (lines 87 to 99)\<close>

definition connectWallet_begin :: "app \<Rightarrow> app" where
  "connectWallet_begin s = s\<lparr>loading := True\<rparr>"

text \<open>Lines 90 and 91: \<^verbatim>\<open>getProvider()\<close> may throw, the account request may be rejected.\<close>

definition connectWallet_try :: "unit settled \<Rightarrow> address list settled \<Rightarrow> address list settled" where
  "connectWallet_try provider send =
     (case provider of Inl err \<Rightarrow> Inl err | Inr p \<Rightarrow> send)"

text \<open>
  Lines 91 to 98. The pattern \<^verbatim>\<open>[account]\<close> takes the first element of the answer, or
  \<^verbatim>\<open>undefined\<close> of an empty one.
\<close>

definition connectWallet_end :: "address list settled \<Rightarrow> app \<Rightarrow> app" where
  "connectWallet_end res s =
     (case res of
        Inr accounts \<Rightarrow>
          s\<lparr>account := (case accounts of [] \<Rightarrow> None | a # _ \<Rightarrow> Some a),
            message := ''Connected to wallet''\<rparr>
      | Inl err \<Rightarrow> s\<lparr>message := err_message err\<rparr>)
     \<lparr>loading := False\<rparr>"

definition connectWallet :: "unit settled \<Rightarrow> address list settled \<Rightarrow> app \<Rightarrow> app" where
  "connectWallet provider send s =
     connectWallet_end (connectWallet_try provider send) (connectWallet_begin s)"

section \<open>joinGame (lines 101 to 114)\<close>

definition joinGame_begin :: "app \<Rightarrow> app" where
  "joinGame_begin s = s\<lparr>loading := True, message := ''Waiting for transaction...''\<rparr>"

text \<open>
  Lines 105 and 106 in render \<open>r\<close>: the stake is read, the transaction is sent, its
  confirmation is awaited. The first of them to fail ends the \<^verbatim>\<open>try\<close> block.
\<close>

definition joinGame_try ::
  "app \<Rightarrow> int settled \<Rightarrow> unit settled \<Rightarrow> unit settled \<Rightarrow> unit settled" where
  "joinGame_try r stake tx wait =
     (case contract r of
        None \<Rightarrow> Inl (nullTypeError ''joinGame'')
      | Some c \<Rightarrow>
         (case stake of
            Inl err \<Rightarrow> Inl err
          | Inr v \<Rightarrow> (case tx of Inl err \<Rightarrow> Inl err | Inr t \<Rightarrow> wait)))"

definition joinGame_end :: "unit settled \<Rightarrow> app \<Rightarrow> app" where
  "joinGame_end res s =
     (case res of
        Inr u \<Rightarrow> s
      | Inl err \<Rightarrow>
          s\<lparr>message := (if includes_str (err_message err) ''user rejected''
                          then ''Transaction cancelled''
                          else err_message err)\<rparr>)
     \<lparr>loading := False\<rparr>"

definition joinGame :: "app \<Rightarrow> int settled \<Rightarrow> unit settled \<Rightarrow> unit settled \<Rightarrow> app \<Rightarrow> app" where
  "joinGame r stake tx wait s = joinGame_end (joinGame_try r stake tx wait) (joinGame_begin s)"

section \<open>makeMove (lines 116 to 127)\<close>

text \<open>Lines 118 and 119.\<close>

definition makeMove_begin :: "app \<Rightarrow> app" where
  "makeMove_begin s = s\<lparr>loading := True, message := ''Processing your move...''\<rparr>"

text \<open>
  Line 120, the call on the contract object of render \<open>r\<close>: the first statement after the
  two setters, with nothing tested before it.
\<close>

definition makeMove_call :: "app \<Rightarrow> int \<Rightarrow> int \<Rightarrow> tx_request settled" where
  "makeMove_call r row col =
     (case contract r of
        None \<Rightarrow> Inl (nullTypeError ''makeMove'')
      | Some c \<Rightarrow> Inr (MakeMoveTx c row col))"

text \<open>The call of line 120 as a change of the state: the request is made, unless the call threw.\<close>

definition makeMove_request :: "app \<Rightarrow> int \<Rightarrow> int \<Rightarrow> app \<Rightarrow> app" where
  "makeMove_request r row col s =
     (case makeMove_call r row col of
        Inl err \<Rightarrow> s
      | Inr request \<Rightarrow> s\<lparr>requested := requested s @ [request]\<rparr>)"

text \<open>
  Lines 120 and 121: \<open>tx\<close> is what the wallet answers to the request, \<open>wait\<close> the
  confirmation.
\<close>

definition makeMove_try ::
  "app \<Rightarrow> int \<Rightarrow> int \<Rightarrow> unit settled \<Rightarrow> unit settled \<Rightarrow> unit settled" where
  "makeMove_try r row col tx wait =
     (case makeMove_call r row col of
        Inl err \<Rightarrow> Inl err
      | Inr request \<Rightarrow> (case tx of Inl err \<Rightarrow> Inl err | Inr t \<Rightarrow> wait))"

definition makeMove_end :: "unit settled \<Rightarrow> app \<Rightarrow> app" where
  "makeMove_end res s =
     (case res of Inr u \<Rightarrow> s | Inl err \<Rightarrow> s\<lparr>message := err_message err\<rparr>)
     \<lparr>loading := False\<rparr>"

definition makeMove ::
  "app \<Rightarrow> int \<Rightarrow> int \<Rightarrow> unit settled \<Rightarrow> unit settled \<Rightarrow> app \<Rightarrow> app" where
  "makeMove r row col tx wait s =
     makeMove_end (makeMove_try r row col tx wait)
       (makeMove_request r row col (makeMove_begin s))"

section \<open>addMonadNetwork (lines 129 to 148)\<close>

definition addMonadNetwork :: "unit settled \<Rightarrow> app \<Rightarrow> app" where
  "addMonadNetwork res s =
     (case res of Inr u \<Rightarrow> s | Inl err \<Rightarrow> s\<lparr>message := err_message err\<rparr>)"

section \<open>The rendered board (lines 154 to 207)\<close>

text \<open>
  \<^verbatim>\<open>!account\<close> is false for a non-empty string only. The board is rendered in the
  connected branch while \<^verbatim>\<open>gameState === 'playing'\<close>, one \<^verbatim>\<open>div\<close> for every cell of every
  row, with its indices.
\<close>

definition connected :: "app \<Rightarrow> bool" where
  "connected r = (case account r of None \<Rightarrow> False | Some a \<Rightarrow> a \<noteq> [])"

definition rendered_cells :: "app \<Rightarrow> (nat \<times> nat \<times> cell) list" where
  "rendered_cells r =
     (if connected r \<and> gameState r = Playing
      then concat (map (\<lambda>(i, row). map (\<lambda>(j, cell). (i, j, cell)) (enumerate 0 row))
                       (enumerate 0 (board r)))
      else [])"

text \<open>
  Line 195, the click handler of the cell at \<open>(i, j)\<close>: the arguments \<^verbatim>\<open>makeMove\<close> is called
  with, or \<open>None\<close> when it is not called.
\<close>

definition cell_onClick :: "app \<Rightarrow> nat \<times> nat \<times> cell \<Rightarrow> (int \<times> int) option" where
  "cell_onClick r c =
     (case c of (i, j, cell) \<Rightarrow>
        if \<not> loading r \<and> cell = Empty then Some (int i, int j) else None)"

section \<open>What else runs while an operation is suspended\<close>

text \<open>
  \<^verbatim>\<open>connectWallet\<close>, \<^verbatim>\<open>joinGame\<close> and \<^verbatim>\<open>makeMove\<close> are suspended at their \<^verbatim>\<open>await\<close>s, and
  other code of the component runs meanwhile, one piece at a time: an event handler,
  the settlement of a refresh, a piece of \<^verbatim>\<open>init\<close> between two of its \<^verbatim>\<open>await\<close>s or its
  \<^verbatim>\<open>catch\<close> block, the cleanup of the effect, the \<^verbatim>\<open>catch\<close> block of \<^verbatim>\<open>addMonadNetwork\<close>.
  The three operations themselves are started from controls that are disabled while
  \<^verbatim>\<open>loading\<close> is set (lines 159, 180 and 195), so none of them runs while another is
  suspended; the section on the controls below makes this precise.
\<close>

datatype background =
    EvGameStarted app address address
  | EvMoveMade app
  | EvGameEnded app address bool
  | RefreshSettled "(int list list \<times> int \<times> int) settled"
  | InitCatch error
  | InitNetwork int
  | InitStake app handle string
  | InitAccounts app "address list"
  | Cleanup app
  | AddNetworkSettled "unit settled"

fun background_step :: "background \<Rightarrow> app \<Rightarrow> app" where
  "background_step (EvGameStarted r playerX playerO) s = onGameStarted r playerX playerO s"
| "background_step (EvMoveMade r) s = onMoveMade r s"
| "background_step (EvGameEnded r winner isDraw) s = onGameEnded r winner isDraw s"
| "background_step (RefreshSettled res) s = updateGameState_settle res s"
| "background_step (InitCatch err) s = init_catch err s"
| "background_step (InitNetwork chainId) s = init_network chainId s"
| "background_step (InitStake r gameContract stake) s = init_stake r gameContract stake s"
| "background_step (InitAccounts r accounts) s = init_accounts r accounts s"
| "background_step (Cleanup r) s = cleanup r s"
| "background_step (AddNetworkSettled res) s = addMonadNetwork res s"


text \<open>The part of the state that is rendered as the game.\<close>

definition gameView :: "app \<Rightarrow> cell list list \<times> mark \<times> phase" where
  "gameView s = (board s, currentTurn s, gameState s)"

section \<open>The controls that start an operation\<close>

text \<open>
  The three operations that write \<^verbatim>\<open>loading\<close> are started by the user only: the button of
  line 158 is rendered while no wallet is connected, the button of line 179 while one is
  connected and the phase is waiting, both with \<^verbatim>\<open>disabled={loading}\<close>, and a cell calls
  \<^verbatim>\<open>makeMove\<close> as \<open>cell_onClick\<close> says. A click is handled in the render of the state as it
  is. The system is the state together with the operations that have been started and
  have not returned yet. A step that the state does not allow gives \<open>None\<close>.
\<close>

datatype operation = ConnectWallet | JoinGame | MakeMove

record system =
  ui :: app
  running :: "operation list"

datatype action =
    Click_connectWallet
  | Click_joinGame
  | Click_cell "nat \<times> nat \<times> cell"
  | Return_connectWallet "address list settled"
  | Return_joinGame "unit settled"
  | Return_makeMove "unit settled"
  | Background background

fun step :: "action \<Rightarrow> system \<Rightarrow> system option" where
  "step Click_connectWallet \<sigma> =
     (if \<not> connected (ui \<sigma>) \<and> \<not> loading (ui \<sigma>)
      then Some \<lparr>ui = connectWallet_begin (ui \<sigma>), running = ConnectWallet # running \<sigma>\<rparr>
      else None)"
| "step Click_joinGame \<sigma> =
     (if connected (ui \<sigma>) \<and> gameState (ui \<sigma>) = Waiting \<and> \<not> loading (ui \<sigma>)
      then Some \<lparr>ui = joinGame_begin (ui \<sigma>), running = JoinGame # running \<sigma>\<rparr>
      else None)"
| "step (Click_cell c) \<sigma> =
     (if c \<in> set (rendered_cells (ui \<sigma>))
      then (case cell_onClick (ui \<sigma>) c of
              None \<Rightarrow> Some \<sigma>
            | Some (row, col) \<Rightarrow>
                Some \<lparr>ui = makeMove_request (ui \<sigma>) row col (makeMove_begin (ui \<sigma>)),
                      running = MakeMove # running \<sigma>\<rparr>)
      else None)"
| "step (Return_connectWallet res) \<sigma> =
     (if ConnectWallet \<in> set (running \<sigma>)
      then Some \<lparr>ui = connectWallet_end res (ui \<sigma>),
                 running = remove1 ConnectWallet (running \<sigma>)\<rparr>
      else None)"
| "step (Return_joinGame res) \<sigma> =
     (if JoinGame \<in> set (running \<sigma>)
      then Some \<lparr>ui = joinGame_end res (ui \<sigma>), running = remove1 JoinGame (running \<sigma>)\<rparr>
      else None)"
| "step (Return_makeMove res) \<sigma> =
     (if MakeMove \<in> set (running \<sigma>)
      then Some \<lparr>ui = makeMove_end res (ui \<sigma>), running = remove1 MakeMove (running \<sigma>)\<rparr>
      else None)"
| "step (Background b) \<sigma> = Some \<lparr>ui = background_step b (ui \<sigma>), running = running \<sigma>\<rparr>"

fun steps :: "action list \<Rightarrow> system \<Rightarrow> system option" where
  "steps [] \<sigma> = Some \<sigma>"
| "steps (e # es) \<sigma> = (case step e \<sigma> of None \<Rightarrow> None | Some \<sigma>' \<Rightarrow> steps es \<sigma>')"

definition started :: system where
  "started = \<lparr>ui = initial, running = []\<rparr>"

section \<open>A session: mount, connect, dispose\<close>

text \<open>
  The component is mounted with no wallet authorised: the effect runs in the first
  render, where \<^verbatim>\<open>contract\<close> and \<^verbatim>\<open>account\<close> are \<^verbatim>\<open>null\<close>. The user connects a wallet;
  \<^verbatim>\<open>account\<close> changes, so React runs the cleanup of the first effect and then the effect
  again, in the render that has the new account and the contract object of the first
  run. At the end the component is disposed and the cleanup of the second effect runs.
\<close>

definition mount_env :: init_env where
  "mount_env =
     \<lparr>provider_r = Inr (), network_r = Inr 1234, stake_r = Inr 100000000000000000,
      formatEther = (\<lambda>wei. ''0.1''), accounts_r = Inr [],
      refresh_r = Inr (replicate 3 (replicate 3 0), 0, 0)\<rparr>"

definition mounted :: app where
  "mounted = init initial mount_env initial"

definition wallet_connected :: app where
  "wallet_connected = connectWallet (Inr ()) (Inr [''0xA'']) mounted"

definition session_changed :: app where
  "session_changed =
     init wallet_connected (mount_env\<lparr>accounts_r := Inr [''0xA'']\<rparr>)
       (cleanup initial wallet_connected)"

definition disposed :: app where
  "disposed = cleanup wallet_connected session_changed"

section \<open>Properties\<close>

subsection \<open>Searching a message\<close>

lemma startsWith_iff: "startsWith s p \<longleftrightarrow> (\<exists>b. s = p @ b)"
  by (induction s p rule: startsWith.induct) auto

lemma includes_str_iff: "includes_str s p \<longleftrightarrow> (\<exists>a b. s = a @ p @ b)"
proof (induction s)
  case Nil
  then show ?case by auto
next
  case (Cons c s)
  show ?case
  proof
    assume "includes_str (c # s) p"
    then consider "startsWith (c # s) p" | "includes_str s p" by auto
    then show "\<exists>a b. c # s = a @ p @ b"
    proof cases
      case 1
      then obtain b where "c # s = p @ b" by (auto simp: startsWith_iff)
      then have "c # s = [] @ p @ b" by simp
      then show ?thesis by blast
    next
      case 2
      then obtain a b where "s = a @ p @ b" using Cons.IH by blast
      then have "c # s = (c # a) @ p @ b" by simp
      then show ?thesis by blast
    qed
  next
    assume "\<exists>a b. c # s = a @ p @ b"
    then obtain a b where ab: "c # s = a @ p @ b" by blast
    show "includes_str (c # s) p"
    proof (cases a)
      case Nil
      with ab have "startsWith (c # s) p" by (auto simp: startsWith_iff)
      then show ?thesis by simp
    next
      case (Cons x a')
      with ab have "s = a' @ p @ b" by simp
      then have "includes_str s p" using Cons.IH by blast
      then show ?thesis by simp
    qed
  qed
qed

subsection \<open>The projection of the contract's codes\<close>

text \<open>
  C1. For every successful refresh (the handle is bound and all three reads are
  fulfilled), the state is the projection of what was read: phase code 0 gives Waiting,
  1 Playing, 2 Completed; turn code 0 gives X, 1 gives O; the board keeps its shape and
  cell code 0 gives Empty, 1 gives X, 2 gives O. The result is determined by the code, so
  it is never another value.
\<close>

theorem projection_of_codes:
  assumes "contract r = Some c"
    and "promise_all (Inr boardState) (Inr turn) (Inr state) res"
    and "s' = updateGameState r res s"
  shows "(state = 0 \<longrightarrow> gameState s' = Waiting) \<and>
         (state = 1 \<longrightarrow> gameState s' = Playing) \<and>
         (state = 2 \<longrightarrow> gameState s' = Completed) \<and>
         (turn = 0 \<longrightarrow> currentTurn s' = MarkX) \<and>
         (turn = 1 \<longrightarrow> currentTurn s' = MarkO) \<and>
         length (board s') = length boardState \<and>
         (\<forall>i < length boardState.
            length (board s' ! i) = length (boardState ! i) \<and>
            (\<forall>j < length (boardState ! i).
               (boardState ! i ! j = 0 \<longrightarrow> board s' ! i ! j = Empty) \<and>
               (boardState ! i ! j = 1 \<longrightarrow> board s' ! i ! j = Mark MarkX) \<and>
               (boardState ! i ! j = 2 \<longrightarrow> board s' ! i ! j = Mark MarkO)))"
proof -
  from assms(2) have res: "res = Inr (boardState, turn, state)"
    by (auto simp: promise_all_def split: sum.splits)
  show ?thesis
    unfolding assms(3) res
    by (simp add: updateGameState_def await_refresh_def updateGameState_call_def
        updateGameState_settle_def assms(1))
qed

theorem projection_of_codes_witness:
  "contract (initial\<lparr>contract := Some 0\<rparr>) = Some 0 \<and>
   promise_all (Inr [[0, 1, 2], [2, 1, 0], [0, 0, 0 :: int]]) (Inr (1 :: int)) (Inr (2 :: int))
     (Inr ([[0, 1, 2], [2, 1, 0], [0, 0, 0]], 1, 2)) \<and>
   gameState (updateGameState (initial\<lparr>contract := Some 0\<rparr>)
     (Inr ([[0, 1, 2], [2, 1, 0], [0, 0, 0]], 1, 2)) initial) = Completed \<and>
   currentTurn (updateGameState (initial\<lparr>contract := Some 0\<rparr>)
     (Inr ([[0, 1, 2], [2, 1, 0], [0, 0, 0]], 1, 2)) initial) = MarkO \<and>
   board (updateGameState (initial\<lparr>contract := Some 0\<rparr>)
     (Inr ([[0, 1, 2], [2, 1, 0], [0, 0, 0]], 1, 2)) initial) ! 0 ! 2 = Mark MarkO"
  using projection_of_codes [of "initial\<lparr>contract := Some 0\<rparr>" 0
      "[[0, 1, 2], [2, 1, 0], [0, 0, 0]]" 1 2 "Inr ([[0, 1, 2], [2, 1, 0], [0, 0, 0]], 1, 2)"
      _ initial]
  by (simp add: promise_all_def)

text \<open>
  C10. The projection is total over all integer codes of a successful refresh: a phase
  code other than 0 and 1 gives Completed, a turn code other than 0 gives O, a cell code
  other than 0 and 1 gives O. Such a refresh takes the path of the three setters like any
  other: no error is reported, the message stays as it was.
\<close>

theorem projection_is_total:
  assumes "contract r = Some c"
    and "promise_all (Inr boardState) (Inr turn) (Inr state) res"
    and "s' = updateGameState r res s"
  shows "(state \<noteq> 0 \<and> state \<noteq> 1 \<longrightarrow> gameState s' = Completed) \<and>
         (turn \<noteq> 0 \<longrightarrow> currentTurn s' = MarkO) \<and>
         (\<forall>i < length boardState. \<forall>j < length (boardState ! i).
            boardState ! i ! j \<noteq> 0 \<and> boardState ! i ! j \<noteq> 1 \<longrightarrow>
              board s' ! i ! j = Mark MarkO) \<and>
         message s' = message s"
proof -
  from assms(2) have res: "res = Inr (boardState, turn, state)"
    by (auto simp: promise_all_def split: sum.splits)
  show ?thesis
    unfolding assms(3) res
    by (simp add: updateGameState_def await_refresh_def updateGameState_call_def
        updateGameState_settle_def assms(1))
qed

theorem projection_is_total_witness:
  "contract (initial\<lparr>contract := Some 0\<rparr>) = Some 0 \<and>
   promise_all (Inr [[0, 1, 7], [- 1, 3, 0 :: int]]) (Inr (5 :: int)) (Inr (3 :: int))
     (Inr ([[0, 1, 7], [- 1, 3, 0]], 5, 3)) \<and>
   gameState (updateGameState (initial\<lparr>contract := Some 0\<rparr>)
     (Inr ([[0, 1, 7], [- 1, 3, 0]], 5, 3)) initial) = Completed \<and>
   currentTurn (updateGameState (initial\<lparr>contract := Some 0\<rparr>)
     (Inr ([[0, 1, 7], [- 1, 3, 0]], 5, 3)) initial) = MarkO \<and>
   board (updateGameState (initial\<lparr>contract := Some 0\<rparr>)
     (Inr ([[0, 1, 7], [- 1, 3, 0]], 5, 3)) initial)
     = [[Empty, Mark MarkX, Mark MarkO], [Mark MarkO, Mark MarkO, Empty]] \<and>
   message (updateGameState (initial\<lparr>contract := Some 0\<rparr>)
     (Inr ([[0, 1, 7], [- 1, 3, 0]], 5, 3)) initial) = ''Connect your wallet to play''"
  using projection_is_total [of "initial\<lparr>contract := Some 0\<rparr>" 0
      "[[0, 1, 7], [- 1, 3, 0]]" 5 3 "Inr ([[0, 1, 7], [- 1, 3, 0]], 5, 3)" _ initial]
  by (simp add: promise_all_def initial_def updateGameState_def await_refresh_def
      updateGameState_call_def updateGameState_settle_def)

subsection \<open>A refresh that fails\<close>

text \<open>
  C2. When any of the three reads of a refresh fails, the board, the turn and the phase
  are left exactly as they were, and the status message becomes the message of a read
  that failed (the one \<^verbatim>\<open>Promise.all\<close> rejected with).
\<close>

theorem refresh_failure_keeps_view:
  assumes "contract r = Some c"
    and "promise_all getBoard_r currentTurn_r gameState_r res"
    and "isl getBoard_r \<or> isl currentTurn_r \<or> isl gameState_r"
    and "s' = updateGameState r res s"
  shows "board s' = board s \<and> currentTurn s' = currentTurn s \<and> gameState s' = gameState s \<and>
         (\<exists>err. (getBoard_r = Inl err \<or> currentTurn_r = Inl err \<or> gameState_r = Inl err) \<and>
                message s' = err_message err)"
proof -
  from assms(2,3) obtain err where res: "res = Inl err"
    and err: "getBoard_r = Inl err \<or> currentTurn_r = Inl err \<or> gameState_r = Inl err"
    by (cases res) (auto simp: promise_all_def)
  have "s' = s\<lparr>message := err_message err\<rparr>"
    unfolding assms(4) res
    by (simp add: updateGameState_def await_refresh_def updateGameState_call_def
        updateGameState_settle_def updateGameState_catch_def assms(1))
  with err show ?thesis by auto
qed

theorem refresh_failure_keeps_view_witness:
  "contract (initial\<lparr>contract := Some 0\<rparr>) = Some 0 \<and>
   promise_all (Inr [[1, 1, 1 :: int]]) (Inl (Error ''timeout'') :: int settled) (Inr (2 :: int))
     (Inl (Error ''timeout'')) \<and>
   isl (Inl (Error ''timeout'') :: int settled) \<and>
   board (updateGameState (initial\<lparr>contract := Some 0\<rparr>) (Inl (Error ''timeout'')) initial)
     = replicate 3 (replicate 3 Empty) \<and>
   currentTurn (updateGameState (initial\<lparr>contract := Some 0\<rparr>) (Inl (Error ''timeout'')) initial)
     = MarkX \<and>
   gameState (updateGameState (initial\<lparr>contract := Some 0\<rparr>) (Inl (Error ''timeout'')) initial)
     = Waiting \<and>
   message (updateGameState (initial\<lparr>contract := Some 0\<rparr>) (Inl (Error ''timeout'')) initial)
     = ''timeout''"
  using refresh_failure_keeps_view [of "initial\<lparr>contract := Some 0\<rparr>" 0
      "Inr [[1, 1, 1]]" "Inl (Error ''timeout'')" "Inr 2" "Inl (Error ''timeout'')" _ initial]
  by (simp add: promise_all_def initial_def)

subsection \<open>The busy flag\<close>

lemma loading_background: "loading (background_step b s) = loading s"
  by (cases b)
    (auto simp: onGameStarted_def onMoveMade_def onGameEnded_def updateGameState_call_def
      updateGameState_catch_def updateGameState_settle_def init_catch_def init_network_def
      init_stake_def init_accounts_def cleanup_def removeAllListeners_def addMonadNetwork_def
      Let_def split: option.splits sum.splits list.splits prod.splits)

lemma makeMove_request_keeps:
  "loading (makeMove_request r row col s) = loading s"
  "message (makeMove_request r row col s) = message s"
  "gameView (makeMove_request r row col s) = gameView s"
  "listeners (makeMove_request r row col s) = listeners s"
  by (simp_all add: makeMove_request_def gameView_def split: sum.splits)




text \<open>
  No two of the operations that write \<^verbatim>\<open>loading\<close> run at the same time: in every state
  the component reaches from its start, \<^verbatim>\<open>loading\<close> is true exactly while one of them has
  been started and has not returned, and then it is the only one.
\<close>

lemma step_keeps_busy:
  assumes "loading (ui \<sigma>) \<longleftrightarrow> running \<sigma> \<noteq> []" and "length (running \<sigma>) \<le> 1"
    and "step e \<sigma> = Some \<sigma>'"
  shows "(loading (ui \<sigma>') \<longleftrightarrow> running \<sigma>' \<noteq> []) \<and> length (running \<sigma>') \<le> 1"
proof -
  have one: "remove1 x (running \<sigma>) = []" if "x \<in> set (running \<sigma>)" for x
    using that assms(2) by (cases "running \<sigma>") auto
  show ?thesis
  proof (cases e)
    case Click_connectWallet
    with assms show ?thesis
      by (auto simp: connectWallet_begin_def split: if_splits)
  next
    case Click_joinGame
    with assms show ?thesis
      by (auto simp: joinGame_begin_def split: if_splits)
  next
    case (Click_cell c)
    with assms show ?thesis
      by (cases c)
        (auto simp: makeMove_begin_def makeMove_request_keeps cell_onClick_def split: if_splits)
  next
    case (Return_connectWallet res)
    with assms one [of ConnectWallet] show ?thesis
      by (auto simp: connectWallet_end_def split: if_splits sum.splits)
  next
    case (Return_joinGame res)
    with assms one [of JoinGame] show ?thesis
      by (auto simp: joinGame_end_def split: if_splits sum.splits)
  next
    case (Return_makeMove res)
    with assms one [of MakeMove] show ?thesis
      by (auto simp: makeMove_end_def split: if_splits sum.splits)
  next
    case (Background b)
    with assms show ?thesis
      by (auto simp: loading_background)
  qed
qed

lemma steps_keep_busy:
  "(loading (ui \<sigma>) \<longleftrightarrow> running \<sigma> \<noteq> []) \<Longrightarrow> length (running \<sigma>) \<le> 1 \<Longrightarrow>
     steps es \<sigma> = Some \<sigma>' \<Longrightarrow>
     (loading (ui \<sigma>') \<longleftrightarrow> running \<sigma>' \<noteq> []) \<and> length (running \<sigma>') \<le> 1"
proof (induction es arbitrary: \<sigma>)
  case Nil
  then show ?case by simp
next
  case (Cons e es)
  from Cons.prems(3) obtain \<sigma>1 where 1: "step e \<sigma> = Some \<sigma>1" and 2: "steps es \<sigma>1 = Some \<sigma>'"
    by (auto split: option.splits)
  from step_keeps_busy [OF Cons.prems(1,2) 1]
  have "loading (ui \<sigma>1) \<longleftrightarrow> running \<sigma>1 \<noteq> []" and "length (running \<sigma>1) \<le> 1"
    by blast+
  from Cons.IH [OF this 2] show ?case .
qed

lemma one_operation_at_a_time:
  "steps es started = Some \<sigma> \<Longrightarrow>
     (loading (ui \<sigma>) \<longleftrightarrow> running \<sigma> \<noteq> []) \<and> length (running \<sigma>) \<le> 1"
  by (rule steps_keep_busy [of started]) (simp_all add: started_def initial_def)

subsection \<open>What is shown of an error\<close>

lemma message_init_catch:
  "message (init_catch err s) =
     (if includes_str (err_message err) ''chain not supported''
      then ''Please connect to Monad Testnet'' else err_message err)"
  by (simp add: init_catch_def)

lemma message_init_thrown:
  "init_thrown env = Some err \<Longrightarrow>
     message (init r env s) =
       (if includes_str (err_message err) ''chain not supported''
        then ''Please connect to Monad Testnet'' else err_message err)"
  by (auto simp: init_thrown_def init_def Let_def message_init_catch split: sum.splits)

lemma message_joinGame:
  "joinGame_try r stake tx wait = Inl err \<Longrightarrow>
     message (joinGame r stake tx wait s) =
       (if includes_str (err_message err) ''user rejected''
        then ''Transaction cancelled'' else err_message err)"
  by (simp add: joinGame_def joinGame_end_def)

lemma message_makeMove:
  "makeMove_try r row col tx wait = Inl err \<Longrightarrow>
     message (makeMove r row col tx wait s) = err_message err"
  by (simp add: makeMove_def makeMove_end_def)

lemma message_connectWallet:
  "connectWallet_try provider send = Inl err \<Longrightarrow>
     message (connectWallet provider send s) = err_message err"
  by (simp add: connectWallet_def connectWallet_end_def)

lemma message_updateGameState:
  "contract r = Some c \<Longrightarrow> message (updateGameState r (Inl err) s) = err_message err"
  by (simp add: updateGameState_def await_refresh_def updateGameState_call_def
      updateGameState_settle_def updateGameState_catch_def)

text \<open>
  C4 does not hold as it is stated. The test of line 108 looks for the text \<^verbatim>\<open>user rejected\<close> in the message and knows
  nothing else of the error. A wallet that rejects the transaction for the user with the
  message of its provider interface, \<^verbatim>\<open>User rejected the request.\<close>, or with
  \<^verbatim>\<open>MetaMask Tx Signature: User denied transaction signature.\<close>, is a user-rejected
  transaction during \<^verbatim>\<open>joinGame\<close>, and its raw text is shown, not \<^verbatim>\<open>Transaction cancelled\<close>.
  A stake read that fails with \<^verbatim>\<open>user rejected\<close> somewhere in its message is shown as
  \<^verbatim>\<open>Transaction cancelled\<close>, though no transaction was sent.
\<close>

theorem user_rejection_shown_raw:
  "joinGame_try (initial\<lparr>contract := Some 0\<rparr>) (Inr 100)
     (Inl (Error ''User rejected the request.'')) (Inr ())
     = Inl (Error ''User rejected the request.'') \<and>
   message (joinGame (initial\<lparr>contract := Some 0\<rparr>) (Inr 100)
     (Inl (Error ''User rejected the request.'')) (Inr ()) initial)
     = ''User rejected the request.'' \<and>
   message (joinGame (initial\<lparr>contract := Some 0\<rparr>) (Inr 100)
     (Inl (Error ''User rejected the request.'')) (Inr ()) initial)
     \<noteq> ''Transaction cancelled'' \<and>
   message (joinGame (initial\<lparr>contract := Some 0\<rparr>) (Inr 100)
     (Inl (Error ''MetaMask Tx Signature: User denied transaction signature.'')) (Inr ()) initial)
     = ''MetaMask Tx Signature: User denied transaction signature.'' \<and>
   message (joinGame (initial\<lparr>contract := Some 0\<rparr>)
     (Inl (Error ''call failed: user rejected'')) (Inr ()) (Inr ()) initial)
     = ''Transaction cancelled''"
  by (simp add: joinGame_def joinGame_try_def joinGame_end_def joinGame_begin_def)

text \<open>
  C4, as the code has it. Two rewritings are made before an error is shown, each decided by the
  text of the message alone. An error of \<^verbatim>\<open>joinGame\<close> (the stake read, the sending, the
  confirmation, or the call on a missing contract) whose message contains the text
  \<^verbatim>\<open>user rejected\<close>, in exactly this spelling, is shown as \<^verbatim>\<open>Transaction cancelled\<close>;
  every other error of \<^verbatim>\<open>joinGame\<close> is shown with its own message. An error of \<^verbatim>\<open>init\<close> whose
  message contains \<^verbatim>\<open>chain not supported\<close> is shown as the request to connect to the Monad
  testnet; every other error of \<^verbatim>\<open>init\<close> is shown with its own message. Every error of
  \<^verbatim>\<open>connectWallet\<close>, of a refresh, of \<^verbatim>\<open>makeMove\<close> and of \<^verbatim>\<open>addMonadNetwork\<close> is shown with its
  own message, whatever it contains.
\<close>

theorem error_messages:
  "(joinGame_try r stake tx wait = Inl err \<and>
      (\<exists>a b. err_message err = a @ ''user rejected'' @ b) \<longrightarrow>
      message (joinGame r stake tx wait s) = ''Transaction cancelled'') \<and>
   (joinGame_try r' stake' tx' wait' = Inl err' \<and>
      \<not> (\<exists>a b. err_message err' = a @ ''user rejected'' @ b) \<longrightarrow>
      message (joinGame r' stake' tx' wait' s) = err_message err') \<and>
   (init_thrown env = Some ierr \<and>
      (\<exists>a b. err_message ierr = a @ ''chain not supported'' @ b) \<longrightarrow>
      message (init r env s) = ''Please connect to Monad Testnet'') \<and>
   (init_thrown env' = Some ierr' \<and>
      \<not> (\<exists>a b. err_message ierr' = a @ ''chain not supported'' @ b) \<longrightarrow>
      message (init r env' s) = err_message ierr') \<and>
   (connectWallet_try provider send = Inl cerr \<longrightarrow>
      message (connectWallet provider send s) = err_message cerr) \<and>
   (contract r = Some c \<longrightarrow> message (updateGameState r (Inl rerr) s) = err_message rerr) \<and>
   (makeMove_try r row col mtx mwait = Inl merr \<longrightarrow>
      message (makeMove r row col mtx mwait s) = err_message merr) \<and>
   message (addMonadNetwork (Inl aerr) s) = err_message aerr"
  unfolding includes_str_iff [symmetric]
  by (simp add: message_joinGame message_init_thrown message_connectWallet message_makeMove
      message_updateGameState addMonadNetwork_def)

theorem error_messages_witness:
  "joinGame_try (initial\<lparr>contract := Some 0\<rparr>) (Inr 100)
     (Inl (Error ''user rejected transaction'')) (Inr ())
     = Inl (Error ''user rejected transaction'') \<and>
   (\<exists>a b. ''user rejected transaction'' = a @ ''user rejected'' @ b) \<and>
   message (joinGame (initial\<lparr>contract := Some 0\<rparr>) (Inr 100)
     (Inl (Error ''user rejected transaction'')) (Inr ()) initial) = ''Transaction cancelled'' \<and>
   joinGame_try (initial\<lparr>contract := Some 0\<rparr>) (Inr 100) (Inr ())
     (Inl (Error ''transaction failed'')) = Inl (Error ''transaction failed'') \<and>
   \<not> (\<exists>a b. ''transaction failed'' = a @ ''user rejected'' @ b) \<and>
   message (joinGame (initial\<lparr>contract := Some 0\<rparr>) (Inr 100) (Inr ())
     (Inl (Error ''transaction failed'')) initial) = ''transaction failed'' \<and>
   init_thrown (mount_env\<lparr>network_r := Inl (Error ''chain not supported: 5'')\<rparr>)
     = Some (Error ''chain not supported: 5'') \<and>
   (\<exists>a b. ''chain not supported: 5'' = a @ ''chain not supported'' @ b) \<and>
   message (init (initial\<lparr>contract := Some 0\<rparr>)
     (mount_env\<lparr>network_r := Inl (Error ''chain not supported: 5'')\<rparr>) initial)
     = ''Please connect to Monad Testnet'' \<and>
   init_thrown (mount_env\<lparr>stake_r := Inl (Error ''call revert exception'')\<rparr>)
     = Some (Error ''call revert exception'') \<and>
   \<not> (\<exists>a b. ''call revert exception'' = a @ ''chain not supported'' @ b) \<and>
   message (init (initial\<lparr>contract := Some 0\<rparr>)
     (mount_env\<lparr>stake_r := Inl (Error ''call revert exception'')\<rparr>) initial)
     = ''call revert exception'' \<and>
   connectWallet_try (Inr ()) (Inl (Error ''user rejected the request''))
     = Inl (Error ''user rejected the request'') \<and>
   message (connectWallet (Inr ()) (Inl (Error ''user rejected the request'')) initial)
     = ''user rejected the request'' \<and>
   contract (initial\<lparr>contract := Some 0\<rparr>) = Some 0 \<and>
   message (updateGameState (initial\<lparr>contract := Some 0\<rparr>)
     (Inl (Error ''chain not supported'')) initial) = ''chain not supported'' \<and>
   makeMove_try (initial\<lparr>contract := Some 0\<rparr>) 0 0
     (Inl (Error ''user rejected transaction'')) (Inr ())
     = Inl (Error ''user rejected transaction'') \<and>
   message (makeMove (initial\<lparr>contract := Some 0\<rparr>) 0 0
     (Inl (Error ''user rejected transaction'')) (Inr ()) initial)
     = ''user rejected transaction'' \<and>
   message (addMonadNetwork (Inl (Error ''user rejected the request'')) initial)
     = ''user rejected the request''"
proof -
  have 1: "joinGame_try (initial\<lparr>contract := Some 0\<rparr>) (Inr 100)
     (Inl (Error ''user rejected transaction'')) (Inr ())
     = Inl (Error ''user rejected transaction'')"
    by (simp add: joinGame_try_def)
  have 2: "\<exists>a b. ''user rejected transaction'' = a @ ''user rejected'' @ b"
    unfolding includes_str_iff [symmetric] by simp
  have 3: "joinGame_try (initial\<lparr>contract := Some 0\<rparr>) (Inr 100) (Inr ())
     (Inl (Error ''transaction failed'')) = Inl (Error ''transaction failed'')"
    by (simp add: joinGame_try_def)
  have 4: "\<not> (\<exists>a b. ''transaction failed'' = a @ ''user rejected'' @ b)"
    unfolding includes_str_iff [symmetric] by simp
  have 5: "init_thrown (mount_env\<lparr>network_r := Inl (Error ''chain not supported: 5'')\<rparr>)
     = Some (Error ''chain not supported: 5'')"
    by (simp add: init_thrown_def mount_env_def)
  have 6: "\<exists>a b. ''chain not supported: 5'' = a @ ''chain not supported'' @ b"
    unfolding includes_str_iff [symmetric] by simp
  have 7: "init_thrown (mount_env\<lparr>stake_r := Inl (Error ''call revert exception'')\<rparr>)
     = Some (Error ''call revert exception'')"
    by (simp add: init_thrown_def mount_env_def)
  have 8: "\<not> (\<exists>a b. ''call revert exception'' = a @ ''chain not supported'' @ b)"
    unfolding includes_str_iff [symmetric] by simp
  have 9: "connectWallet_try (Inr ()) (Inl (Error ''user rejected the request''))
     = Inl (Error ''user rejected the request'')"
    by (simp add: connectWallet_try_def)
  have 10: "makeMove_try (initial\<lparr>contract := Some 0\<rparr>) 0 0
     (Inl (Error ''user rejected transaction'')) (Inr ())
     = Inl (Error ''user rejected transaction'')"
    by (simp add: makeMove_try_def makeMove_call_def)
  have 11: "contract (initial\<lparr>contract := Some 0\<rparr>) = Some 0"
    by simp
  have i2: "includes_str ''user rejected transaction'' ''user rejected''"
    and i4: "\<not> includes_str ''transaction failed'' ''user rejected''"
    and i6: "includes_str ''chain not supported: 5'' ''chain not supported''"
    and i8: "\<not> includes_str ''call revert exception'' ''chain not supported''"
    by simp_all
  note em = error_messages [where r = "initial\<lparr>contract := Some 0\<rparr>" and stake = "Inr 100"
        and tx = "Inl (Error ''user rejected transaction'')" and wait = "Inr ()"
        and err = "Error ''user rejected transaction''" and s = initial
        and r' = "initial\<lparr>contract := Some 0\<rparr>" and stake' = "Inr 100"
        and tx' = "Inr ()" and wait' = "Inl (Error ''transaction failed'')"
        and err' = "Error ''transaction failed''"
        and env = "mount_env\<lparr>network_r := Inl (Error ''chain not supported: 5'')\<rparr>"
        and ierr = "Error ''chain not supported: 5''"
        and env' = "mount_env\<lparr>stake_r := Inl (Error ''call revert exception'')\<rparr>"
        and ierr' = "Error ''call revert exception''"
        and provider = "Inr ()" and send = "Inl (Error ''user rejected the request'')"
        and cerr = "Error ''user rejected the request''"
        and c = 0 and rerr = "Error ''chain not supported''"
        and row = 0 and col = 0 and mtx = "Inl (Error ''user rejected transaction'')"
        and mwait = "Inr ()" and merr = "Error ''user rejected transaction''"
        and aerr = "Error ''user rejected the request''",
        unfolded includes_str_iff [symmetric]]
  have rest: "message (joinGame (initial\<lparr>contract := Some 0\<rparr>) (Inr 100)
       (Inl (Error ''user rejected transaction'')) (Inr ()) initial) = ''Transaction cancelled'' \<and>
     message (joinGame (initial\<lparr>contract := Some 0\<rparr>) (Inr 100) (Inr ())
       (Inl (Error ''transaction failed'')) initial) = ''transaction failed'' \<and>
     message (init (initial\<lparr>contract := Some 0\<rparr>)
       (mount_env\<lparr>network_r := Inl (Error ''chain not supported: 5'')\<rparr>) initial)
       = ''Please connect to Monad Testnet'' \<and>
     message (init (initial\<lparr>contract := Some 0\<rparr>)
       (mount_env\<lparr>stake_r := Inl (Error ''call revert exception'')\<rparr>) initial)
       = ''call revert exception'' \<and>
     message (connectWallet (Inr ()) (Inl (Error ''user rejected the request'')) initial)
       = ''user rejected the request'' \<and>
     message (updateGameState (initial\<lparr>contract := Some 0\<rparr>)
       (Inl (Error ''chain not supported'')) initial) = ''chain not supported'' \<and>
     message (makeMove (initial\<lparr>contract := Some 0\<rparr>) 0 0
       (Inl (Error ''user rejected transaction'')) (Inr ()) initial)
       = ''user rejected transaction'' \<and>
     message (addMonadNetwork (Inl (Error ''user rejected the request'')) initial)
       = ''user rejected the request''"
    using 1 3 5 7 9 10 11 i2 i4 i6 i8 em
    by (simp del: includes_str.simps startsWith.simps)
  from 1 2 3 4 5 6 7 8 9 10 11 rest show ?thesis
    by (intro conjI) (erule conjunct1 | erule conjunct2 | assumption | blast)+
qed

subsection \<open>The game view\<close>

lemma gameView_background:
  "gameView (background_step b s) \<noteq> gameView s \<Longrightarrow>
     \<exists>boardState turn state. b = RefreshSettled (Inr (boardState, turn, state))"
  by (cases b)
    (auto simp: gameView_def onGameStarted_def onMoveMade_def onGameEnded_def
      updateGameState_call_def
      updateGameState_catch_def updateGameState_settle_def init_catch_def init_network_def
      init_stake_def init_accounts_def cleanup_def removeAllListeners_def addMonadNetwork_def
      Let_def split: option.splits sum.splits list.splits prod.splits if_splits)

text \<open>
  C5. Neither \<^verbatim>\<open>joinGame\<close> nor \<^verbatim>\<open>makeMove\<close> (nor \<^verbatim>\<open>connectWallet\<close>) writes the board, the turn
  or the phase, neither before its \<^verbatim>\<open>await\<close>s nor after them: no move is applied locally.
  Of all the other code of the component, only the settlement of a refresh whose three
  reads succeeded changes them, and it replaces all three by the projection of what was
  read, whatever they were before.
\<close>

theorem view_only_by_refresh:
  "gameView (joinGame_begin s) = gameView s \<and>
   gameView (joinGame_end res s) = gameView s \<and>
   gameView (joinGame r stake tx wait s) = gameView s \<and>
   gameView (makeMove_begin s) = gameView s \<and>
   gameView (makeMove_end res s) = gameView s \<and>
   gameView (makeMove_request r row col s) = gameView s \<and>
   gameView (makeMove r row col tx wait s) = gameView s \<and>
   gameView (connectWallet_begin s) = gameView s \<and>
   gameView (connectWallet_end res' s) = gameView s \<and>
   (gameView (background_step b s) \<noteq> gameView s \<longrightarrow>
      (\<exists>boardState turn state. b = RefreshSettled (Inr (boardState, turn, state)))) \<and>
   gameView (updateGameState_settle (Inr (boardState, turn, state)) s) =
     (map (map (\<lambda>cell. if cell = 0 then Empty else if cell = 1 then Mark MarkX else Mark MarkO))
        boardState,
      if turn = 0 then MarkX else MarkO,
      if state = 0 then Waiting else if state = 1 then Playing else Completed)"
proof -
  have "gameView (joinGame_begin s) = gameView s" for s
    by (simp add: gameView_def joinGame_begin_def)
  moreover have "gameView (joinGame_end res s) = gameView s" for res s
    by (simp add: gameView_def joinGame_end_def split: sum.splits)
  moreover have "gameView (makeMove_begin s) = gameView s" for s
    by (simp add: gameView_def makeMove_begin_def)
  moreover have "gameView (makeMove_end res s) = gameView s" for res s
    by (simp add: gameView_def makeMove_end_def split: sum.splits)
  moreover have "gameView (connectWallet_begin s) = gameView s"
    by (simp add: gameView_def connectWallet_begin_def)
  moreover have "gameView (connectWallet_end res' s) = gameView s"
    by (simp add: gameView_def connectWallet_end_def split: sum.splits)
  moreover have "gameView (updateGameState_settle (Inr (boardState, turn, state)) s) =
     (map (map (\<lambda>cell. if cell = 0 then Empty else if cell = 1 then Mark MarkX else Mark MarkO))
        boardState,
      if turn = 0 then MarkX else MarkO,
      if state = 0 then Waiting else if state = 1 then Playing else Completed)"
    by (simp add: gameView_def updateGameState_settle_def)
  ultimately show ?thesis
    using gameView_background [of b s]
    by (simp add: joinGame_def makeMove_def makeMove_request_keeps)
qed

theorem view_only_by_refresh_witness:
  "gameView (makeMove (initial\<lparr>contract := Some 0\<rparr>) 1 1 (Inr ()) (Inr ()) initial)
     = gameView initial \<and>
   gameView (joinGame (initial\<lparr>contract := Some 0\<rparr>) (Inr 100) (Inr ()) (Inr ()) initial)
     = gameView initial \<and>
   gameView (background_step (RefreshSettled (Inr ([[0, 0, 0], [0, 1, 0], [0, 0, 0]], 1, 1)))
      initial) \<noteq> gameView initial \<and>
   gameView (updateGameState_settle (Inr ([[0, 0, 0], [0, 1, 0], [0, 0, 0]], 1, 1)) initial)
     = ([[Empty, Empty, Empty], [Empty, Mark MarkX, Empty], [Empty, Empty, Empty]],
        MarkO, Playing)"
  using view_only_by_refresh [where s = initial and r = "initial\<lparr>contract := Some 0\<rparr>"
      and row = 1 and col = 1 and tx = "Inr ()" and wait = "Inr ()" and stake = "Inr 100"
      and b = "RefreshSettled (Inr ([[0, 0, 0], [0, 1, 0], [0, 0, 0]], 1, 1))"
      and boardState = "[[0, 0, 0], [0, 1, 0], [0, 0, 0]]" and turn = 1 and state = 1]
  by (simp add: gameView_def initial_def)

subsection \<open>connectWallet\<close>

text \<open>
  C8. When the account request of \<^verbatim>\<open>connectWallet\<close> fails (or \<^verbatim>\<open>getProvider()\<close> throws), the
  status message becomes the error's message as it is, and \<^verbatim>\<open>account\<close> is left as it was,
  also when other code has run while the request was pending.
\<close>

theorem connectWallet_failure:
  assumes "connectWallet_try provider send = Inl err"
  shows "message (connectWallet provider send s) = err_message err \<and>
         account (connectWallet provider send s) = account s \<and>
         (\<forall>s'. message (connectWallet_end (Inl err) s') = err_message err \<and>
               account (connectWallet_end (Inl err) s') = account s')"
  using assms
  by (simp add: connectWallet_def connectWallet_end_def connectWallet_begin_def)

theorem connectWallet_failure_witness:
  "connectWallet_try (Inr ()) (Inl (Error ''User rejected the request.''))
     = Inl (Error ''User rejected the request.'') \<and>
   message (connectWallet (Inr ()) (Inl (Error ''User rejected the request.'')) initial)
     = ''User rejected the request.'' \<and>
   account (connectWallet (Inr ()) (Inl (Error ''User rejected the request.'')) initial) = None"
proof -
  have h: "connectWallet_try (Inr ()) (Inl (Error ''User rejected the request.''))
     = Inl (Error ''User rejected the request.'')"
    by (simp add: connectWallet_try_def)
  show ?thesis
    using h connectWallet_failure [OF h, of initial] by (simp add: initial_def)
qed

subsection \<open>A click on a cell\<close>

lemma row_cells_iff:
  "(i', j, cell) \<in> set (map (\<lambda>(j, cell). (i, j, cell)) (enumerate 0 row)) \<longleftrightarrow>
     i' = i \<and> j < length row \<and> cell = row ! j"
proof -
  have "(i', j, cell) \<in> set (map (\<lambda>(j, cell). (i, j, cell)) (enumerate 0 row)) \<longleftrightarrow>
      (\<exists>p \<in> set (enumerate 0 row). (i', j, cell) = (i, fst p, snd p))"
    by (auto simp: case_prod_beta)
  also have "\<dots> \<longleftrightarrow> i' = i \<and> (j, cell) \<in> set (enumerate 0 row)"
    by (metis prod.collapse fst_conv snd_conv prod.inject)
  also have "\<dots> \<longleftrightarrow> i' = i \<and> j < length row \<and> cell = row ! j"
    by (auto simp: in_set_enumerate_eq)
  finally show ?thesis .
qed

lemma board_cells_iff:
  "(i, j, cell) \<in> set (concat (map (\<lambda>(i, row). map (\<lambda>(j, cell). (i, j, cell)) (enumerate 0 row))
                                   (enumerate 0 rows))) \<longleftrightarrow>
     i < length rows \<and> j < length (rows ! i) \<and> cell = rows ! i ! j"
proof -
  have "(i, j, cell) \<in> set (concat (map (\<lambda>(i, row). map (\<lambda>(j, cell). (i, j, cell)) (enumerate 0 row))
                                   (enumerate 0 rows))) \<longleftrightarrow>
      (\<exists>p \<in> set (enumerate 0 rows).
         (i, j, cell) \<in> set (map (\<lambda>(j, cell). (fst p, j, cell)) (enumerate 0 (snd p))))"
    by (simp only: set_concat set_map UN_iff bex_simps image_iff case_prod_beta)
  also have "\<dots> \<longleftrightarrow> (\<exists>p \<in> set (enumerate 0 rows).
         i = fst p \<and> j < length (snd p) \<and> cell = snd p ! j)"
    by (simp only: row_cells_iff)
  also have "\<dots> \<longleftrightarrow> (\<exists>row. (i, row) \<in> set (enumerate 0 rows) \<and> j < length row \<and> cell = row ! j)"
    by (metis prod.collapse fst_conv snd_conv)
  also have "\<dots> \<longleftrightarrow> i < length rows \<and> j < length (rows ! i) \<and> cell = rows ! i ! j"
    by (auto simp: in_set_enumerate_eq)
  finally show ?thesis .
qed

lemma rendered_cells_iff:
  "(i, j, cell) \<in> set (rendered_cells r) \<longleftrightarrow>
     connected r \<and> gameState r = Playing \<and>
     i < length (board r) \<and> j < length (board r ! i) \<and> cell = board r ! i ! j"
proof (cases "connected r \<and> gameState r = Playing")
  case True
  then have "rendered_cells r =
      concat (map (\<lambda>(i, row). map (\<lambda>(j, cell). (i, j, cell)) (enumerate 0 row))
                  (enumerate 0 (board r)))"
    unfolding rendered_cells_def by (rule if_P)
  then have "(i, j, cell) \<in> set (rendered_cells r) \<longleftrightarrow>
      i < length (board r) \<and> j < length (board r ! i) \<and> cell = board r ! i ! j"
    by (simp only: board_cells_iff)
  with True show ?thesis by blast
next
  case False
  then have "rendered_cells r = []"
    unfolding rendered_cells_def by (rule if_not_P)
  then have "(i, j, cell) \<notin> set (rendered_cells r)" by simp
  with False show ?thesis by blast
qed

lemma makeMove_unfolded:
  assumes "contract r = Some c"
  shows "makeMove r row col tx wait s =
           makeMove_end (case tx of Inl err \<Rightarrow> Inl err | Inr t \<Rightarrow> wait)
             (s\<lparr>loading := True, message := ''Processing your move...'',
                requested := requested s @ [MakeMoveTx c row col]\<rparr>)"
  using assms
  by (simp add: makeMove_def makeMove_try_def makeMove_call_def makeMove_request_def
      makeMove_begin_def)

lemma requested_makeMove:
  assumes "contract r = Some c"
  shows "requested (makeMove r row col tx wait s) = requested s @ [MakeMoveTx c row col]"
  unfolding makeMove_unfolded [OF assms]
  by (simp add: makeMove_end_def split: sum.splits)

text \<open>
  C7. A click on a rendered cell calls \<^verbatim>\<open>makeMove\<close> only when \<^verbatim>\<open>loading\<close> is false and the
  cell is empty, and then with the indices of that cell; the board is rendered only
  while the phase is Playing and a wallet is connected. \<^verbatim>\<open>makeMove\<close> itself checks nothing:
  whatever the row, the column, the state of its render and the state it runs in, with a
  contract object it sets the two cells, requests the move transaction with the
  arguments it was given, and goes on as the wallet's answer and the confirmation decide.
\<close>

theorem move_only_from_empty_enabled_cell:
  "((i, j, cell) \<in> set (rendered_cells r) \<and> cell_onClick r (i, j, cell) = Some (row, col) \<longrightarrow>
      row = int i \<and> col = int j \<and>
      i < length (board r) \<and> j < length (board r ! i) \<and> board r ! i ! j = Empty \<and>
      \<not> loading r \<and> gameState r = Playing \<and> connected r) \<and>
   (contract r' = Some c \<longrightarrow>
      makeMove_call r' row' col' = Inr (MakeMoveTx c row' col') \<and>
      makeMove_try r' row' col' tx wait = (case tx of Inl err \<Rightarrow> Inl err | Inr t \<Rightarrow> wait) \<and>
      requested (makeMove r' row' col' tx wait s) = requested s @ [MakeMoveTx c row' col'] \<and>
      makeMove r' row' col' tx wait s =
        makeMove_end (case tx of Inl err \<Rightarrow> Inl err | Inr t \<Rightarrow> wait)
          (s\<lparr>loading := True, message := ''Processing your move...'',
             requested := requested s @ [MakeMoveTx c row' col']\<rparr>))"
proof -
  have click: "cell_onClick r (i, j, cell) = Some (row, col) \<Longrightarrow>
      row = int i \<and> col = int j \<and> cell = Empty \<and> \<not> loading r"
    by (simp add: cell_onClick_def split: if_splits)
  have call: "contract r' = Some c \<Longrightarrow> makeMove_call r' row' col' = Inr (MakeMoveTx c row' col')"
    by (simp add: makeMove_call_def)
  have attempt: "contract r' = Some c \<Longrightarrow>
      makeMove_try r' row' col' tx wait = (case tx of Inl err \<Rightarrow> Inl err | Inr t \<Rightarrow> wait)"
    by (simp add: makeMove_try_def call)
  have fired: "row = int i \<and> col = int j \<and>
      i < length (board r) \<and> j < length (board r ! i) \<and> board r ! i ! j = Empty \<and>
      \<not> loading r \<and> gameState r = Playing \<and> connected r"
    if a: "(i, j, cell) \<in> set (rendered_cells r) \<and> cell_onClick r (i, j, cell) = Some (row, col)"
  proof -
    from a have "(i, j, cell) \<in> set (rendered_cells r)" ..
    then have 1: "connected r \<and> gameState r = Playing \<and>
        i < length (board r) \<and> j < length (board r ! i) \<and> cell = board r ! i ! j"
      by (simp only: rendered_cells_iff)
    from a have "cell_onClick r (i, j, cell) = Some (row, col)" ..
    then have 2: "row = int i \<and> col = int j \<and> cell = Empty \<and> \<not> loading r"
      by (rule click)
    from 1 2 have "board r ! i ! j = Empty" by metis
    with 1 2 show ?thesis by blast
  qed
  show ?thesis
  proof (intro conjI impI)
    show "makeMove_call r' row' col' = Inr (MakeMoveTx c row' col')" if "contract r' = Some c"
      using that by (rule call)
    show "makeMove_try r' row' col' tx wait = (case tx of Inl err \<Rightarrow> Inl err | Inr t \<Rightarrow> wait)"
      if "contract r' = Some c"
      using that by (rule attempt)
    show "requested (makeMove r' row' col' tx wait s) = requested s @ [MakeMoveTx c row' col']"
      if "contract r' = Some c"
      using that by (rule requested_makeMove)
    show "makeMove r' row' col' tx wait s =
        makeMove_end (case tx of Inl err \<Rightarrow> Inl err | Inr t \<Rightarrow> wait)
          (s\<lparr>loading := True, message := ''Processing your move...'',
             requested := requested s @ [MakeMoveTx c row' col']\<rparr>)"
      if "contract r' = Some c"
      using that by (rule makeMove_unfolded)
  qed (use fired in blast)+
qed

theorem move_only_from_empty_enabled_cell_witness:
  "(1, 2, Empty) \<in> set (rendered_cells
      (initial\<lparr>account := Some ''0xA'', gameState := Playing\<rparr>)) \<and>
   cell_onClick (initial\<lparr>account := Some ''0xA'', gameState := Playing\<rparr>) (1, 2, Empty)
     = Some (1, 2) \<and>
   board (initial\<lparr>account := Some ''0xA'', gameState := Playing\<rparr>) ! 1 ! 2 = Empty \<and>
   \<not> loading (initial\<lparr>account := Some ''0xA'', gameState := Playing\<rparr>) \<and>
   contract (initial\<lparr>contract := Some 0, loading := True, gameState := Completed\<rparr>) = Some 0 \<and>
   makeMove_call (initial\<lparr>contract := Some 0, loading := True, gameState := Completed\<rparr>) 7 (- 1)
     = Inr (MakeMoveTx 0 7 (- 1)) \<and>
   makeMove_try (initial\<lparr>contract := Some 0, loading := True, gameState := Completed\<rparr>) 7 (- 1)
     (Inr ()) (Inr ()) = Inr () \<and>
   requested (makeMove (initial\<lparr>contract := Some 0, loading := True, gameState := Completed\<rparr>)
     7 (- 1) (Inr ()) (Inr ())
     (initial\<lparr>loading := True, gameState := Completed,
        board := replicate 3 (replicate 3 (Mark MarkX))\<rparr>)) = [MakeMoveTx 0 7 (- 1)] \<and>
   message (makeMove (initial\<lparr>contract := Some 0, loading := True, gameState := Completed\<rparr>)
     7 (- 1) (Inr ()) (Inr ())
     (initial\<lparr>loading := True, gameState := Completed,
        board := replicate 3 (replicate 3 (Mark MarkX))\<rparr>)) = ''Processing your move...''"
proof -
  have 1: "(1, 2, Empty) \<in> set (rendered_cells
      (initial\<lparr>account := Some ''0xA'', gameState := Playing\<rparr>))"
    by (simp add: rendered_cells_iff connected_def initial_def)
  have 2: "cell_onClick (initial\<lparr>account := Some ''0xA'', gameState := Playing\<rparr>) (1, 2, Empty)
     = Some (1, 2)"
    by (simp add: cell_onClick_def initial_def)
  have 3: "contract (initial\<lparr>contract := Some 0, loading := True, gameState := Completed\<rparr>)
     = Some 0"
    by simp
  have 4: "requested (initial\<lparr>loading := True, gameState := Completed,
        board := replicate 3 (replicate 3 (Mark MarkX))\<rparr>) = []"
    by (simp add: initial_def)
  show ?thesis
    using 1 2 3 4
      move_only_from_empty_enabled_cell [where i = 1 and j = 2 and cell = Empty
        and r = "initial\<lparr>account := Some ''0xA'', gameState := Playing\<rparr>"
        and row = 1 and col = 2
        and r' = "initial\<lparr>contract := Some 0, loading := True, gameState := Completed\<rparr>"
        and c = 0 and row' = 7 and col' = "- 1" and tx = "Inr ()" and wait = "Inr ()"
        and s = "initial\<lparr>loading := True, gameState := Completed,
          board := replicate 3 (replicate 3 (Mark MarkX))\<rparr>"]
    by (simp add: makeMove_end_def)
qed

subsection \<open>The listeners after the cleanup\<close>

lemma listeners_on_cleanup:
  "contract r \<noteq> Some h \<Longrightarrow> listeners_on h (cleanup r s) = listeners_on h s"
proof (cases "contract r")
  case None
  then show ?thesis by (simp add: cleanup_def)
next
  case (Some c)
  assume "contract r \<noteq> Some h"
  with Some have "c \<noteq> h" by simp
  then have "filter (\<lambda>l. target l = h) (filter (\<lambda>l. target l \<noteq> c) ls) =
      filter (\<lambda>l. target l = h) ls" for ls
    by (induction ls) auto
  with Some show ?thesis
    by (simp add: cleanup_def removeAllListeners_def listeners_on_def)
qed

lemma listeners_updateGameState_call: "listeners (updateGameState_call r s) = listeners s"
  by (simp add: updateGameState_call_def updateGameState_catch_def split: option.splits)

lemma listeners_await_refresh: "listeners (await_refresh r res s) = listeners s"
  by (simp add: await_refresh_def updateGameState_settle_def updateGameState_catch_def
      split: option.splits sum.splits prod.splits)

lemma listeners_init_accounts: "listeners (init_accounts r accounts s) = listeners s"
  by (simp add: init_accounts_def listeners_updateGameState_call split: list.splits)

lemma listeners_on_init:
  assumes "provider_r env = Inr p" and "network_r env = Inr chainId" and "stake_r env = Inr stake"
  shows "listeners_on (next_handle s) (init r env s) =
           listeners_on (next_handle s) s @ [GameStarted, MoveMade, GameEnded]"
proof -
  let ?s2 = "init_stake r (next_handle s) (formatEther env stake) (init_network chainId s)"
  have s2: "listeners ?s2 = listeners s @
      [Listener (next_handle s) GameStarted (contract r) (account r),
       Listener (next_handle s) MoveMade (contract r) (account r),
       Listener (next_handle s) GameEnded (contract r) (account r)]"
    by (simp add: init_stake_def init_network_def Let_def)
  have "listeners (init r env s) = listeners ?s2"
    using assms
    by (simp add: init_def Let_def init_catch_def listeners_await_refresh
        listeners_init_accounts split: sum.splits)
  with s2 show ?thesis by (simp add: listeners_on_def)
qed

text \<open>
  The cleanup an effect returns removes the listeners of the contract object its render
  holds. The object \<^verbatim>\<open>init\<close> creates in the same effect is a new one, so the listeners
  registered by a run of \<^verbatim>\<open>init\<close> are all still there after the cleanup of its own effect.
\<close>

lemma own_cleanup_keeps_listeners:
  assumes "provider_r env = Inr p" and "network_r env = Inr chainId" and "stake_r env = Inr stake"
    and "\<And>c. contract r = Some c \<Longrightarrow> c < next_handle s"
  shows "listeners_on (next_handle s) (cleanup r (init r env s)) =
           listeners_on (next_handle s) s @ [GameStarted, MoveMade, GameEnded]"
proof -
  have "contract r \<noteq> Some (next_handle s)"
    using assms(4) by force
  then show ?thesis
    by (simp add: listeners_on_cleanup listeners_on_init [OF assms(1-3)])
qed

text \<open>
  C6 (the code does otherwise). In the session of mount, connect and dispose, the first
  run of \<^verbatim>\<open>init\<close> registers its three listeners on contract object 0. The cleanup of that
  effect, run when the account changes, holds \<^verbatim>\<open>contract = null\<close> and removes nothing:
  the three listeners are still there, beside the three the second run registers on
  object 1. The cleanup of the second effect, run when the component is disposed, holds
  object 0 and removes those of the first run only: the listeners of the second run
  survive the disposal.
\<close>

theorem listeners_survive_cleanup:
  "listeners_on 0 mounted = [GameStarted, MoveMade, GameEnded] \<and>
   listeners_on 0 (cleanup initial mounted) = [GameStarted, MoveMade, GameEnded] \<and>
   listeners_on 0 (cleanup initial wallet_connected) = [GameStarted, MoveMade, GameEnded] \<and>
   listeners_on 0 session_changed = [GameStarted, MoveMade, GameEnded] \<and>
   listeners_on 1 session_changed = [GameStarted, MoveMade, GameEnded] \<and>
   listeners_on 0 disposed = [] \<and>
   listeners_on 1 disposed = [GameStarted, MoveMade, GameEnded]"
proof -
  have m: "mounted =
      initial\<lparr>contract := Some 0, stakeAmount := ''0.1'',
        listeners := [Listener 0 GameStarted None None, Listener 0 MoveMade None None,
                      Listener 0 GameEnded None None],
        next_handle := 1\<rparr>"
    by (simp add: mounted_def init_def mount_env_def init_network_def init_stake_def
        init_accounts_def initial_def Let_def)
  have w: "wallet_connected = mounted\<lparr>account := Some ''0xA'', message := ''Connected to wallet''\<rparr>"
    by (simp add: wallet_connected_def connectWallet_def connectWallet_end_def
        connectWallet_begin_def connectWallet_try_def m initial_def)
  have c: "cleanup initial s = s" for s
    by (simp add: cleanup_def initial_def)
  have s: "listeners session_changed =
      [Listener 0 GameStarted None None, Listener 0 MoveMade None None,
       Listener 0 GameEnded None None,
       Listener 1 GameStarted (Some 0) (Some ''0xA''),
       Listener 1 MoveMade (Some 0) (Some ''0xA''),
       Listener 1 GameEnded (Some 0) (Some ''0xA'')]"
    unfolding session_changed_def c
    by (simp add: init_def mount_env_def init_network_def init_stake_def
        init_accounts_def listeners_await_refresh listeners_updateGameState_call Let_def
        w m initial_def)
  have d: "listeners disposed =
      [Listener 1 GameStarted (Some 0) (Some ''0xA''),
       Listener 1 MoveMade (Some 0) (Some ''0xA''),
       Listener 1 GameEnded (Some 0) (Some ''0xA'')]"
    by (simp add: disposed_def cleanup_def removeAllListeners_def s w m initial_def)
  have "listeners (cleanup initial mounted) = listeners mounted"
    and "listeners (cleanup initial wallet_connected) = listeners mounted"
    unfolding c by (simp_all add: w)
  then show ?thesis
    by (simp add: listeners_on_def s d m initial_def)
qed

subsection \<open>The end of a game\<close>

text \<open>
  With a contract object in the handler's render, the message is the draw text when the
  handler returns; and when the contract then reports phase code 2 (all three reads
  succeed), the refresh sets the phase to Completed and leaves the message.
\<close>

lemma handler_with_contract:
  assumes "contract r = Some c"
    and "promise_all getBoard_r currentTurn_r (Inr 2) res"
    and "\<not> isl getBoard_r" and "\<not> isl currentTurn_r"
  shows "onGameEnded r' winner True s =
           updateGameState_call r' (s\<lparr>message := ''Game ended in a draw!''\<rparr>) \<and>
         message (onGameEnded r winner True s) = ''Game ended in a draw!'' \<and>
         message (await_refresh r res (onGameEnded r winner True s)) = ''Game ended in a draw!'' \<and>
         gameState (await_refresh r res (onGameEnded r winner True s)) = Completed \<and>
         (\<forall>s'. gameState (await_refresh r res s') = Completed)"
proof -
  from assms(2-4) obtain boardState turn where "res = Inr (boardState, turn, 2)"
    by (cases res) (auto simp: promise_all_def)
  then show ?thesis
    by (simp add: onGameEnded_def updateGameState_call_def await_refresh_def
        updateGameState_settle_def assms(1))
qed

text \<open>
  A handler whose render has no contract object yet gets a TypeError from its refresh
  before it returns: the message it has just set is replaced by the error's, no read is
  issued, and nothing is left of the refresh that could set the phase.
\<close>

lemma handler_of_first_render:
  assumes "contract r = None"
  shows "message (onGameEnded r winner isDraw s) = err_message (nullTypeError ''getBoard'')"
    and "gameState (onGameEnded r winner isDraw s) = gameState s"
    and "await_refresh r res s' = s'"
  using assms
  by (simp_all add: onGameEnded_def updateGameState_call_def updateGameState_catch_def
      await_refresh_def)


end
